theory Spec2Isabelle
  imports Complex_Main "HOL-Library.Word"
begin

unbundle bit_operations_syntax

section \<open>Python values used by the models\<close>

text \<open>
  A naive \<^verbatim>\<open>datetime.datetime\<close> (the models only ever call
  \<^verbatim>\<open>datetime.utcnow()\<close> and the columns are \<^verbatim>\<open>DateTime\<close> without time zone):
  the seven fields Python stores. Two naive datetimes compare field by field, most
  significant first.
\<close>

record datetime =
  dt_year :: nat
  dt_month :: nat
  dt_day :: nat
  dt_hour :: nat
  dt_minute :: nat
  dt_second :: nat
  dt_microsecond :: nat

definition dt_key :: "datetime \<Rightarrow> nat list" where
  "dt_key d = [dt_year d, dt_month d, dt_day d, dt_hour d, dt_minute d, dt_second d,
               dt_microsecond d]"

fun lex_less :: "nat list \<Rightarrow> nat list \<Rightarrow> bool" where
  "lex_less (x # xs) (y # ys) = (x < y \<or> (x = y \<and> lex_less xs ys))"
| "lex_less [] (y # ys) = True"
| "lex_less xs [] = False"

text \<open>\<^verbatim>\<open>a < b\<close> and \<^verbatim>\<open>a <= b\<close> on datetimes.\<close>

definition dt_lt :: "datetime \<Rightarrow> datetime \<Rightarrow> bool" where
  "dt_lt a b = lex_less (dt_key a) (dt_key b)"

definition dt_le :: "datetime \<Rightarrow> datetime \<Rightarrow> bool" where
  "dt_le a b = (\<not> dt_lt b a)"

text \<open>A \<^verbatim>\<open>uuid.UUID\<close> is its 128-bit integer.\<close>

type_synonym uuid = "128 word"

text \<open>
  \<^verbatim>\<open>str(u)\<close> for a UUID: 32 lower-case hexadecimal digits, most significant first,
  grouped 8-4-4-4-12.
\<close>

definition hex_digit :: "nat \<Rightarrow> char" where
  "hex_digit n = ''0123456789abcdef'' ! n"

definition uuid_hex :: "uuid \<Rightarrow> string" where
  "uuid_hex u = map (\<lambda>i. hex_digit (unat (drop_bit (4 * (31 - i)) u AND 15))) [0..<32]"

definition uuid_str :: "uuid \<Rightarrow> string" where
  "uuid_str u =
     (let h = uuid_hex u in
      take 8 h @ ''-'' @ take 4 (drop 8 h) @ ''-'' @ take 4 (drop 12 h) @ ''-'' @
      take 4 (drop 16 h) @ ''-'' @ drop 20 h)"

text \<open>
  \<^verbatim>\<open>datetime.isoformat()\<close> of a naive datetime:
  \<^verbatim>\<open>"%04d-%02d-%02dT%02d:%02d:%02d"\<close>, followed by \<^verbatim>\<open>".%06d"\<close> when the
  microsecond field is not zero.
\<close>

definition digit_char :: "nat \<Rightarrow> char" where
  "digit_char n = ''0123456789'' ! n"

fun dec :: "nat \<Rightarrow> string" where
  "dec n = (if n < 10 then [digit_char n] else dec (n div 10) @ [digit_char (n mod 10)])"

declare dec.simps [simp del]

definition zpad :: "nat \<Rightarrow> nat \<Rightarrow> string" where
  "zpad w n = replicate (w - length (dec n)) (CHR ''0'') @ dec n"

definition isoformat :: "datetime \<Rightarrow> string" where
  "isoformat d =
     zpad 4 (dt_year d) @ ''-'' @ zpad 2 (dt_month d) @ ''-'' @ zpad 2 (dt_day d) @ ''T'' @
     zpad 2 (dt_hour d) @ '':'' @ zpad 2 (dt_minute d) @ '':'' @ zpad 2 (dt_second d) @
     (if dt_microsecond d \<noteq> 0 then ''.'' @ zpad 6 (dt_microsecond d) else [])"

text \<open>
  \<^verbatim>\<open>d + timedelta(minutes=n)\<close>: the minutes are added and carried into hours and days;
  a result after year 9999 is Python's \<^verbatim>\<open>OverflowError\<close> (\<open>None\<close>).
\<close>

definition is_leap :: "nat \<Rightarrow> bool" where
  "is_leap y = (y mod 4 = 0 \<and> (y mod 100 \<noteq> 0 \<or> y mod 400 = 0))"

definition days_in_month :: "nat \<Rightarrow> nat \<Rightarrow> nat" where
  "days_in_month y m =
     (if m = 2 then (if is_leap y then 29 else 28)
      else if m = 4 \<or> m = 6 \<or> m = 9 \<or> m = 11 then 30 else 31)"

definition next_day :: "datetime \<Rightarrow> datetime" where
  "next_day d =
     (if dt_day d < days_in_month (dt_year d) (dt_month d) then d\<lparr>dt_day := dt_day d + 1\<rparr>
      else if dt_month d < 12 then d\<lparr>dt_month := dt_month d + 1, dt_day := 1\<rparr>
      else d\<lparr>dt_year := dt_year d + 1, dt_month := 1, dt_day := 1\<rparr>)"

definition add_minutes :: "datetime \<Rightarrow> nat \<Rightarrow> datetime option" where
  "add_minutes d n =
     (let m = dt_minute d + n;
          h = dt_hour d + m div 60;
          r = (next_day ^^ (h div 24)) (d\<lparr>dt_hour := h mod 24, dt_minute := m mod 60\<rparr>)
      in if dt_year r > 9999 then None else Some r)"

text \<open>
  The values a column or a JSON document can hold. \<^verbatim>\<open>PDict\<close> is a Python
  \<^verbatim>\<open>dict\<close> with string keys, as an association list.
\<close>

datatype pyval =
    PNone
  | PBool bool
  | PInt int
  | PFloat real
  | PStr string
  | PUuid uuid
  | PDatetime datetime
  | PDate nat nat nat
  | PList "pyval list"
  | PDict "(string \<times> pyval) list"

text \<open>\<^verbatim>\<open>d[k] = v\<close> and \<^verbatim>\<open>d.get(k)\<close> on such a dict.\<close>

fun dict_set :: "(string \<times> pyval) list \<Rightarrow> string \<Rightarrow> pyval \<Rightarrow> (string \<times> pyval) list" where
  "dict_set [] k v = [(k, v)]"
| "dict_set ((k', v') # d) k v = (if k' = k then (k, v) # d else (k', v') # dict_set d k v)"

definition dict_get :: "(string \<times> pyval) list \<Rightarrow> string \<Rightarrow> pyval option" where
  "dict_get d k = map_of d k"

definition opt_val :: "('a \<Rightarrow> pyval) \<Rightarrow> 'a option \<Rightarrow> pyval" where
  "opt_val f x = (case x of None \<Rightarrow> PNone | Some v \<Rightarrow> f v)"

text \<open>The exceptions that the modelled code can raise.\<close>

datatype error =
    NameError string
  | TypeError
  | OverflowError
  | ValidationError

section \<open>\<^verbatim>\<open>app/models/shared.py\<close>: \<^verbatim>\<open>BaseModel\<close>\<close>

text \<open>
  The columns that \<^verbatim>\<open>BaseModel\<close> inherits from \<^verbatim>\<open>TimestampMixin\<close>,
  \<^verbatim>\<open>SoftDeleteMixin\<close> and \<^verbatim>\<open>AfricanOptimizationMixin\<close>, and its own
  \<^verbatim>\<open>id\<close> and \<^verbatim>\<open>metadata_info\<close>. Nullable columns without a JSON type are
  options; the JSON columns hold a \<^typ>\<open>pyval\<close> (\<^verbatim>\<open>None\<close> is \<^term>\<open>PNone\<close>).
  \<^verbatim>\<open>extra_columns\<close> are the columns the concrete subclass and its other mixins
  declare (for instance \<^verbatim>\<open>country_code\<close> and \<^verbatim>\<open>region\<close> of
  \<^verbatim>\<open>GeospatialMixin\<close>), by column name.
\<close>

record base_model =
  rec_id :: "uuid option"
  created_at :: datetime
  updated_at :: datetime
  is_deleted :: bool
  deleted_at :: "datetime option"
  sync_status :: string
  last_sync_at :: "datetime option"
  offline_id :: "string option"
  language_code :: string
  cultural_context :: pyval
  mobile_optimized :: bool
  data_residency_country :: "string option"
  metadata_info :: pyval
  extra_columns :: "(string \<times> pyval) list"

text \<open>
  An object that the constructor has returned and that is not yet flushed. The constructor
  only stores the keyword arguments it is given, without any check: a column attribute that
  was not given (or assigned since) reads \<^verbatim>\<open>None\<close>, also when the column is declared
  with \<^verbatim>\<open>default=\<close> and \<^verbatim>\<open>nullable=False\<close>.
\<close>

record unflushed =
  obj_id :: "uuid option"
  obj_created_at :: "datetime option"
  obj_updated_at :: "datetime option"
  obj_is_deleted :: "bool option"
  obj_deleted_at :: "datetime option"
  obj_sync_status :: "string option"
  obj_last_sync_at :: "datetime option"
  obj_offline_id :: "string option"
  obj_language_code :: "string option"
  obj_cultural_context :: "pyval option"
  obj_mobile_optimized :: "bool option"
  obj_data_residency_country :: "string option"
  obj_metadata_info :: "pyval option"
  obj_extra :: "(string \<times> pyval) list"

text \<open>The object a constructor call without keyword arguments returns.\<close>

definition constructed :: unflushed where
  "constructed =
     \<lparr> obj_id = None, obj_created_at = None, obj_updated_at = None, obj_is_deleted = None,
       obj_deleted_at = None, obj_sync_status = None, obj_last_sync_at = None,
       obj_offline_id = None, obj_language_code = None, obj_cultural_context = None,
       obj_mobile_optimized = None, obj_data_residency_country = None,
       obj_metadata_info = None, obj_extra = [] \<rparr>"

text \<open>
  The flush that inserts the row. A column whose attribute is \<^verbatim>\<open>None\<close> takes its
  \<^verbatim>\<open>default=\<close>, and stays \<^verbatim>\<open>NULL\<close> when it has none; an attribute that is set is
  written as it is. The callable defaults are called once for each column that needs them:
  \<open>fresh\<close> is what \<^verbatim>\<open>uuid.uuid4()\<close> returns for \<^verbatim>\<open>id\<close>, and
  \<open>now_created\<close> and \<open>now_updated\<close> are what the two calls of
  \<^verbatim>\<open>datetime.utcnow()\<close> return for \<^verbatim>\<open>created_at\<close> and \<^verbatim>\<open>updated_at\<close>.
\<close>

definition column_default :: "'a \<Rightarrow> 'a option \<Rightarrow> 'a" where
  "column_default d given = (case given of None \<Rightarrow> d | Some v \<Rightarrow> v)"

definition insert_row :: "unflushed \<Rightarrow> uuid \<Rightarrow> datetime \<Rightarrow> datetime \<Rightarrow> base_model" where
  "insert_row obj fresh now_created now_updated =
     \<lparr> rec_id = Some (column_default fresh (obj_id obj)),
       created_at = column_default now_created (obj_created_at obj),
       updated_at = column_default now_updated (obj_updated_at obj),
       is_deleted = column_default False (obj_is_deleted obj),
       deleted_at = obj_deleted_at obj,
       sync_status = column_default ''synced'' (obj_sync_status obj),
       last_sync_at = obj_last_sync_at obj,
       offline_id = obj_offline_id obj,
       language_code = column_default ''en'' (obj_language_code obj),
       cultural_context = column_default PNone (obj_cultural_context obj),
       mobile_optimized = column_default True (obj_mobile_optimized obj),
       data_residency_country = obj_data_residency_country obj,
       metadata_info = column_default PNone (obj_metadata_info obj),
       extra_columns = obj_extra obj \<rparr>"

text \<open>
  \<^verbatim>\<open>BaseModel.mark_for_sync\<close>, \<^verbatim>\<open>mark_synced\<close>, \<^verbatim>\<open>mark_conflict\<close>.
  The first argument of the first two is the value \<^verbatim>\<open>datetime.utcnow()\<close> returns at
  the call.
\<close>

definition mark_for_sync :: "datetime \<Rightarrow> 'a base_model_scheme \<Rightarrow> 'a base_model_scheme" where
  "mark_for_sync now r = (r\<lparr>sync_status := ''pending''\<rparr>)\<lparr>updated_at := now\<rparr>"

definition mark_synced :: "datetime \<Rightarrow> 'a base_model_scheme \<Rightarrow> 'a base_model_scheme" where
  "mark_synced now r = (r\<lparr>sync_status := ''synced''\<rparr>)\<lparr>last_sync_at := Some now\<rparr>"

definition mark_conflict :: "'a base_model_scheme \<Rightarrow> 'a base_model_scheme" where
  "mark_conflict r = r\<lparr>sync_status := ''conflict''\<rparr>"










text \<open>
  \<^verbatim>\<open>self.__table__.columns\<close> with \<^verbatim>\<open>getattr(self, column.name)\<close> for each: the
  columns of \<^verbatim>\<open>BaseModel\<close> and then those of the subclass.
\<close>

definition base_columns :: "'a base_model_scheme \<Rightarrow> (string \<times> pyval) list" where
  "base_columns r =
     [ (''created_at'', PDatetime (created_at r)),
       (''updated_at'', PDatetime (updated_at r)),
       (''is_deleted'', PBool (is_deleted r)),
       (''deleted_at'', opt_val PDatetime (deleted_at r)),
       (''sync_status'', PStr (sync_status r)),
       (''last_sync_at'', opt_val PDatetime (last_sync_at r)),
       (''offline_id'', opt_val PStr (offline_id r)),
       (''language_code'', PStr (language_code r)),
       (''cultural_context'', cultural_context r),
       (''mobile_optimized'', PBool (mobile_optimized r)),
       (''data_residency_country'', opt_val PStr (data_residency_country r)),
       (''id'', opt_val PUuid (rec_id r)),
       (''metadata_info'', metadata_info r) ]"

definition table_columns :: "'a base_model_scheme \<Rightarrow> (string \<times> pyval) list" where
  "table_columns r = base_columns r @ extra_columns r"

text \<open>\<^verbatim>\<open>getattr(self, name, None)\<close>.\<close>

definition getattr_default :: "'a base_model_scheme \<Rightarrow> string \<Rightarrow> pyval" where
  "getattr_default r name = (case map_of (table_columns r) name of None \<Rightarrow> PNone | Some v \<Rightarrow> v)"

text \<open>
  \<^verbatim>\<open>BaseModel.to_dict\<close>. The body of its loop turns a \<^verbatim>\<open>uuid.UUID\<close> into
  \<^verbatim>\<open>str(value)\<close>, a \<^verbatim>\<open>datetime\<close> into \<^verbatim>\<open>value.isoformat()\<close> and leaves
  every other value as it is; then the key \<^verbatim>\<open>african_context\<close> is assigned.
\<close>

fun serialize :: "pyval \<Rightarrow> pyval" where
  "serialize (PUuid u) = PStr (uuid_str u)"
| "serialize (PDatetime d) = PStr (isoformat d)"
| "serialize v = v"

definition to_dict_loop :: "(string \<times> pyval) list \<Rightarrow> (string \<times> pyval) list \<Rightarrow> (string \<times> pyval) list" where
  "to_dict_loop cols result = fold (\<lambda>(name, value) res. dict_set res name (serialize value)) cols result"

definition african_context :: "'a base_model_scheme \<Rightarrow> pyval" where
  "african_context r =
     PDict [ (''country_code'', getattr_default r ''country_code''),
             (''region'', getattr_default r ''region''),
             (''language_code'', PStr (language_code r)),
             (''cultural_context'', cultural_context r) ]"

definition to_dict :: "'a base_model_scheme \<Rightarrow> (string \<times> pyval) list" where
  "to_dict r = dict_set (to_dict_loop (table_columns r) []) ''african_context'' (african_context r)"

text \<open>
  \<^verbatim>\<open>BaseModel.get_sync_data\<close>. \<^verbatim>\<open>str(self.id)\<close> of an id that is still
  \<^verbatim>\<open>None\<close> is the string \<^verbatim>\<open>"None"\<close>; a \<^verbatim>\<open>datetime\<close> is always true in a
  condition, so \<^verbatim>\<open>last_sync_at\<close> is formatted whenever it is set.
\<close>

definition str_of_id :: "uuid option \<Rightarrow> string" where
  "str_of_id i = (case i of None \<Rightarrow> ''None'' | Some u \<Rightarrow> uuid_str u)"

definition get_sync_data :: "'a base_model_scheme \<Rightarrow> (string \<times> pyval) list" where
  "get_sync_data r =
     [ (''id'', PStr (str_of_id (rec_id r))),
       (''sync_status'', PStr (sync_status r)),
       (''last_sync_at'', (case last_sync_at r of None \<Rightarrow> PNone | Some d \<Rightarrow> PStr (isoformat d))),
       (''offline_id'', opt_val PStr (offline_id r)),
       (''data'', PDict (to_dict r)) ]"

section \<open>\<^verbatim>\<open>app/models/user.py\<close>: login tracking of \<^verbatim>\<open>User\<close>\<close>

text \<open>The columns of \<^verbatim>\<open>User\<close> that its login methods read and write.\<close>

record user =
  last_login :: "datetime option"
  login_count :: int
  failed_login_attempts :: int
  account_locked_until :: "datetime option"

text \<open>
  What a global name of the module \<^verbatim>\<open>app/models/user.py\<close> is bound to, and the
  names the module binds: its imports (lines 18 to 31) and its own assignments and classes.
\<close>

datatype py_global =
    StdModule string
  | StdClass string string
  | Imported string
  | ModuleLevel

definition user_module_globals :: "(string \<times> py_global) list" where
  "user_module_globals =
     [ (''uuid'', StdModule ''uuid''),
       (''datetime'', StdClass ''datetime'' ''datetime''),
       (''date'', StdClass ''datetime'' ''date''),
       (''Optional'', Imported ''typing''), (''List'', Imported ''typing''),
       (''Dict'', Imported ''typing''), (''Any'', Imported ''typing''),
       (''Column'', Imported ''sqlalchemy''), (''String'', Imported ''sqlalchemy''),
       (''Boolean'', Imported ''sqlalchemy''), (''DateTime'', Imported ''sqlalchemy''),
       (''Date'', Imported ''sqlalchemy''), (''Text'', Imported ''sqlalchemy''),
       (''JSON'', Imported ''sqlalchemy''), (''Integer'', Imported ''sqlalchemy''),
       (''Float'', Imported ''sqlalchemy''), (''ForeignKey'', Imported ''sqlalchemy''),
       (''Table'', Imported ''sqlalchemy''), (''UniqueConstraint'', Imported ''sqlalchemy''),
       (''Index'', Imported ''sqlalchemy''),
       (''UUID'', Imported ''sqlalchemy.dialects.postgresql''),
       (''relationship'', Imported ''sqlalchemy.orm''), (''backref'', Imported ''sqlalchemy.orm''),
       (''hybrid_property'', Imported ''sqlalchemy.ext.hybrid''),
       (''CryptContext'', Imported ''passlib.context''),
       (''BaseModel'', Imported ''app.models.shared''),
       (''GeospatialMixin'', Imported ''app.models.shared''),
       (''MultiLanguageMixin'', Imported ''app.models.shared''),
       (''Base'', Imported ''app.core.database''),
       (''pwd_context'', ModuleLevel), (''user_roles'', ModuleLevel),
       (''user_communities'', ModuleLevel), (''user_cooperatives'', ModuleLevel),
       (''User'', ModuleLevel), (''UserProfile'', ModuleLevel), (''UserRole'', ModuleLevel),
       (''UserPermission'', ModuleLevel), (''Community'', ModuleLevel),
       (''Cooperative'', ModuleLevel), (''ExtensionAgent'', ModuleLevel),
       (''GovernmentOfficial'', ModuleLevel), (''__all__'', ModuleLevel) ]"

text \<open>
  Evaluating \<^verbatim>\<open>datetime.utcnow() + timedelta(minutes=n)\<close> in a module with the globals
  \<open>g\<close>: the name \<^verbatim>\<open>timedelta\<close> is looked up when the expression is evaluated, and a
  name that is not bound raises \<^verbatim>\<open>NameError\<close>. (No Python builtin has that name.)
\<close>

definition utcnow_plus_minutes :: "(string \<times> py_global) list \<Rightarrow> datetime \<Rightarrow> nat \<Rightarrow> error + datetime" where
  "utcnow_plus_minutes g now n =
     (case map_of g ''timedelta'' of
        None \<Rightarrow> Inl (NameError ''timedelta'')
      | Some b \<Rightarrow>
          if b = StdClass ''datetime'' ''timedelta''
          then (case add_minutes now n of None \<Rightarrow> Inl OverflowError | Some t \<Rightarrow> Inr t)
          else Inl TypeError)"

text \<open>
  \<^verbatim>\<open>User.increment_failed_login\<close>. The counter is incremented before the lock is
  computed, so the incremented counter stays when the second statement raises. The result is
  the exception raised, if any, and the user after the call.
\<close>

definition increment_failed_login :: "datetime \<Rightarrow> 'a user_scheme \<Rightarrow> (error + unit) \<times> 'a user_scheme" where
  "increment_failed_login now u =
     (let u1 = u\<lparr>failed_login_attempts := failed_login_attempts u + 1\<rparr> in
      if failed_login_attempts u1 \<ge> 5 then
        (case utcnow_plus_minutes user_module_globals now 30 of
           Inl e \<Rightarrow> (Inl e, u1)
         | Inr t \<Rightarrow> (Inr (), u1\<lparr>account_locked_until := Some t\<rparr>))
      else (Inr (), u1))"

text \<open>\<^verbatim>\<open>User.is_account_locked\<close>, at the time \<open>now\<close>.\<close>

definition is_account_locked :: "datetime \<Rightarrow> 'a user_scheme \<Rightarrow> bool" where
  "is_account_locked now u =
     (case account_locked_until u of
        Some t \<Rightarrow> dt_lt now t
      | None \<Rightarrow> False)"

section \<open>\<^verbatim>\<open>app/core/database.py\<close>: \<^verbatim>\<open>OfflineDatabase\<close>\<close>

text \<open>
  The rows of \<^verbatim>\<open>SyncLog\<close>, the \<^verbatim>\<open>OfflineDatabase\<close> object (its engine and session
  factory, each the database URL it was made for, or \<^verbatim>\<open>None\<close>), and the state the two
  sync methods could touch: the central store, the offline store of each user and the sync
  log.
\<close>

record sync_log = base_model +
  user_id :: uuid
  operation_type :: string
  status :: string
  records_affected :: int
  conflicts_count :: int
  sync_details :: pyval
  error_info :: pyval
  duration_seconds :: "real option"

record offline_database =
  offline_engine :: "string option"
  offline_session :: "string option"

record stores =
  online_records :: "base_model list"
  offline_records :: "(string \<times> base_model list) list"
  sync_logs :: "sync_log list"

text \<open>
  \<^verbatim>\<open>OfflineDatabase.sync_to_online\<close> and \<^verbatim>\<open>sync_from_online\<close>: the body of each is
  \<^verbatim>\<open>pass\<close>. The result is the returned value, the object and the stores after the call.
\<close>

definition sync_to_online :: "offline_database \<Rightarrow> pyval \<Rightarrow> stores \<Rightarrow> pyval \<times> offline_database \<times> stores" where
  "sync_to_online self uid st = (PNone, self, st)"

definition sync_from_online :: "offline_database \<Rightarrow> pyval \<Rightarrow> stores \<Rightarrow> pyval \<times> offline_database \<times> stores" where
  "sync_from_online self uid st = (PNone, self, st)"

section \<open>\<^verbatim>\<open>app/core/config.py\<close>: \<^verbatim>\<open>get_settings\<close>\<close>

text \<open>
  A process: \<^verbatim>\<open>os.environ\<close>, the \<^verbatim>\<open>Settings\<close> objects constructed so far (a
  reference to one is its position, so two constructions never give the same object), and
  the cache that \<^verbatim>\<open>lru_cache()\<close> keeps for \<^verbatim>\<open>get_settings\<close>. The function takes
  no argument, so the cache has one key and holds one result or none.
  What pydantic makes of the class and the environment (the validated field values, or a
  validation error) is the parameter \<open>build\<close>.
\<close>

datatype settings_class = DevelopmentSettings | ProductionSettings | TestingSettings

record 'f process =
  environ :: "(string \<times> string) list"
  heap :: "(settings_class \<times> 'f) list"
  lru_cache :: "nat option"

text \<open>\<^verbatim>\<open>os.getenv(key, default)\<close> and \<^verbatim>\<open>str.lower()\<close> on ASCII.\<close>

definition getenv :: "(string \<times> string) list \<Rightarrow> string \<Rightarrow> string \<Rightarrow> string" where
  "getenv env key dflt = (case map_of env key of None \<Rightarrow> dflt | Some v \<Rightarrow> v)"

definition lower_char :: "char \<Rightarrow> char" where
  "lower_char c =
     (if 65 \<le> (of_char c :: nat) \<and> (of_char c :: nat) \<le> 90 then char_of (of_char c + (32 :: nat)) else c)"

definition lower :: "string \<Rightarrow> string" where
  "lower s = map lower_char s"

text \<open>The body of \<^verbatim>\<open>get_settings\<close>, without the decorator.\<close>

definition select_class :: "(string \<times> string) list \<Rightarrow> settings_class" where
  "select_class env =
     (let environment = lower (getenv env ''ENVIRONMENT'' ''development'') in
      if environment = ''production'' then ProductionSettings
      else if environment = ''testing'' then TestingSettings
      else DevelopmentSettings)"

definition get_settings_body ::
  "(settings_class \<Rightarrow> (string \<times> string) list \<Rightarrow> error + 'f) \<Rightarrow> 'f process \<Rightarrow> (error + nat) \<times> 'f process" where
  "get_settings_body build p =
     (let cls = select_class (environ p) in
      case build cls (environ p) of
        Inl e \<Rightarrow> (Inl e, p)
      | Inr f \<Rightarrow> (Inr (length (heap p)), p\<lparr>heap := heap p @ [(cls, f)]\<rparr>))"

text \<open>
  \<^verbatim>\<open>get_settings\<close> as decorated: a hit returns the cached object; a miss runs the body
  and stores its result, and an exception of the body is passed on with nothing stored.
\<close>

definition get_settings ::
  "(settings_class \<Rightarrow> (string \<times> string) list \<Rightarrow> error + 'f) \<Rightarrow> 'f process \<Rightarrow> (error + nat) \<times> 'f process" where
  "get_settings build p =
     (case lru_cache p of
        Some r \<Rightarrow> (Inr r, p)
      | None \<Rightarrow>
          (case get_settings_body build p of
             (Inl e, p') \<Rightarrow> (Inl e, p')
           | (Inr r, p') \<Rightarrow> (Inr r, p'\<lparr>lru_cache := Some r\<rparr>)))"

text \<open>
  Importing the module runs \<^verbatim>\<open>settings = get_settings()\<close>: the import fails with the
  exception, or binds the module-level name \<^verbatim>\<open>settings\<close>.
\<close>

definition import_config ::
  "(settings_class \<Rightarrow> (string \<times> string) list \<Rightarrow> error + 'f) \<Rightarrow> 'f process \<Rightarrow> error + (nat \<times> 'f process)" where
  "import_config build p =
     (case get_settings build p of
        (Inl e, p') \<Rightarrow> Inl e
      | (Inr r, p') \<Rightarrow> Inr (r, p'))"

text \<open>
  What the rest of the process does afterwards, as far as \<^verbatim>\<open>get_settings\<close> can see it:
  it changes the environment and it calls \<^verbatim>\<open>get_settings\<close>. \<open>run_actions\<close> returns
  the results of the calls in order.
\<close>

datatype action = Putenv string string | Unsetenv string | GetSettings

fun run_actions ::
  "(settings_class \<Rightarrow> (string \<times> string) list \<Rightarrow> error + 'f) \<Rightarrow> action list \<Rightarrow> 'f process \<Rightarrow> (error + nat) list \<times> 'f process" where
  "run_actions build [] p = ([], p)"
| "run_actions build (Putenv k v # as) p =
     run_actions build as (p\<lparr>environ := (k, v) # filter (\<lambda>kv. fst kv \<noteq> k) (environ p)\<rparr>)"
| "run_actions build (Unsetenv k # as) p =
     run_actions build as (p\<lparr>environ := filter (\<lambda>kv. fst kv \<noteq> k) (environ p)\<rparr>)"
| "run_actions build (GetSettings # as) p =
     (case get_settings build p of
        (res, p') \<Rightarrow> (case run_actions build as p' of (rs, p'') \<Rightarrow> (res # rs, p'')))"

section \<open>Sample data\<close>

text \<open>Concrete values on which the theorems below are instantiated.\<close>

definition example_time :: datetime where
  "example_time =
     \<lparr>dt_year = 2024, dt_month = 3, dt_day = 9, dt_hour = 7, dt_minute = 5, dt_second = 0,
      dt_microsecond = 0\<rparr>"

definition example_later :: datetime where
  "example_later =
     \<lparr>dt_year = 2024, dt_month = 3, dt_day = 9, dt_hour = 8, dt_minute = 0, dt_second = 30,
      dt_microsecond = 250\<rparr>"

definition example_record :: base_model where
  "example_record =
     insert_row
       (constructed\<lparr>obj_offline_id := Some ''dev1-0001'',
                    obj_extra := [(''country_code'', PStr ''NG''), (''area'', PInt 12)]\<rparr>)
       0x12345678123456781234567812345678 example_time example_time"

definition example_user :: user where
  "example_user =
     \<lparr>last_login = None, login_count = 0, failed_login_attempts = 4,
      account_locked_until = None\<rparr>"

definition example_build :: "settings_class \<Rightarrow> (string \<times> string) list \<Rightarrow> error + string" where
  "example_build cls env =
     (case map_of env ''SECRET_KEY'' of None \<Rightarrow> Inl ValidationError | Some k \<Rightarrow> Inr k)"

definition example_process :: "string process" where
  "example_process = \<lparr>environ = [(''SECRET_KEY'', ''k'')], heap = [], lru_cache = None\<rparr>"

section \<open>Auxiliary facts\<close>

lemma lex_less_irrefl: "\<not> lex_less xs xs"
  by (induction xs) auto

lemma dt_le_refl: "dt_le a a"
  by (simp add: dt_le_def dt_lt_def lex_less_irrefl)






lemma timedelta_unbound: "map_of user_module_globals ''timedelta'' = None"
  by (simp add: user_module_globals_def)

lemma increment_failed_login_below_five:
  "failed_login_attempts u < 4 \<Longrightarrow>
   increment_failed_login now u =
     (Inr (), u\<lparr>failed_login_attempts := failed_login_attempts u + 1\<rparr>)"
  by (simp add: increment_failed_login_def Let_def)

lemma increment_failed_login_raises:
  "4 \<le> failed_login_attempts u \<Longrightarrow>
   increment_failed_login now u =
     (Inl (NameError ''timedelta''), u\<lparr>failed_login_attempts := failed_login_attempts u + 1\<rparr>)"
  by (simp add: increment_failed_login_def Let_def utcnow_plus_minutes_def timedelta_unbound)

lemma get_settings_cached:
  "lru_cache p = Some s \<Longrightarrow> get_settings build p = (Inr s, p)"
  by (simp add: get_settings_def)

lemma run_actions_cached:
  "lru_cache p = Some s \<Longrightarrow>
   fst (run_actions build acts p) =
     replicate (length (filter (\<lambda>a. a = GetSettings) acts)) (Inr s)"
proof (induction acts arbitrary: p)
  case Nil
  then show ?case by simp
next
  case (Cons a acts)
  show ?case
  proof (cases a)
    case (Putenv k v)
    then show ?thesis
      using Cons.IH [of "p\<lparr>environ := (k, v) # filter (\<lambda>kv. fst kv \<noteq> k) (environ p)\<rparr>"]
        Cons.prems
      by simp
  next
    case (Unsetenv k)
    then show ?thesis
      using Cons.IH [of "p\<lparr>environ := filter (\<lambda>kv. fst kv \<noteq> k) (environ p)\<rparr>"] Cons.prems
      by simp
  next
    case GetSettings
    then show ?thesis using Cons.IH [OF Cons.prems] Cons.prems
      by (auto simp: get_settings_cached split: prod.splits)
  qed
qed

lemma import_config_caches:
  "import_config build p0 = Inr (s, p) \<Longrightarrow> lru_cache p = Some s"
  by (auto simp: import_config_def get_settings_def get_settings_body_def Let_def
           split: option.splits prod.splits sum.splits)

lemma map_of_dict_set: "map_of (dict_set d k v) = (map_of d)(k \<mapsto> v)"
  by (induction d) auto

lemma map_of_to_dict_loop:
  "map_of (to_dict_loop cols res) =
   map_of res ++ map_of (rev (map (\<lambda>(n, v). (n, serialize v)) cols))"
proof (induction cols arbitrary: res)
  case Nil
  then show ?case by (simp add: to_dict_loop_def)
next
  case (Cons c cols)
  obtain n v where c: "c = (n, v)" by (cases c)
  have "to_dict_loop (c # cols) res = to_dict_loop cols (dict_set res n (serialize v))"
    by (simp add: to_dict_loop_def c)
  then have "map_of (to_dict_loop (c # cols) res) =
      (map_of res)(n \<mapsto> serialize v) ++ map_of (rev (map (\<lambda>(n, v). (n, serialize v)) cols))"
    by (simp only: Cons.IH map_of_dict_set)
  also have "\<dots> = map_of res ++ map_of (rev (map (\<lambda>(n, v). (n, serialize v)) (c # cols)))"
    by (rule ext) (simp add: c map_add_def split: option.splits)
  finally show ?case .
qed

lemma serialized_lookup:
  assumes d: "distinct (map fst cols)" and m: "(n, v) \<in> set cols"
  shows "map_of (rev (map (\<lambda>(n, v). (n, serialize v)) cols)) n = Some (serialize v)"
proof -
  let ?cs = "rev (map (\<lambda>(n, v). (n, serialize v)) cols)"
  have f: "map fst ?cs = rev (map fst cols)"
    by (simp add: rev_map case_prod_unfold comp_def)
  have "distinct (map fst ?cs)" using d by (simp only: f distinct_rev)
  moreover have "(n, serialize v) \<in> set ?cs" using m by force
  ultimately show ?thesis by (simp only: map_of_eq_Some_iff)
qed

lemma to_dict_column:
  assumes "distinct (map fst (table_columns r))" and "(n, v) \<in> set (table_columns r)"
    and "n \<noteq> ''african_context''"
  shows "dict_get (to_dict r) n = Some (serialize v)"
  using assms serialized_lookup [OF assms(1) assms(2)]
  by (simp add: dict_get_def to_dict_def map_of_dict_set map_of_to_dict_loop)

lemma to_dict_african_context:
  "dict_get (to_dict r) ''african_context'' = Some (african_context r)"
  by (simp add: dict_get_def to_dict_def map_of_dict_set)

section \<open>The sync stubs of \<^verbatim>\<open>OfflineDatabase\<close>\<close>

text \<open>
  C4. For every user id, \<^verbatim>\<open>sync_to_online\<close> and \<^verbatim>\<open>sync_from_online\<close> return
  \<^verbatim>\<open>None\<close> and change nothing: the object, the central records, every offline store and
  the sync log are after the call what they were before it.
\<close>

theorem sync_stubs_are_noops:
  "sync_to_online self uid st = (PNone, self, st) \<and>
   sync_from_online self uid st = (PNone, self, st) \<and>
   online_records (snd (snd (sync_to_online self uid st))) = online_records st \<and>
   offline_records (snd (snd (sync_to_online self uid st))) = offline_records st \<and>
   sync_logs (snd (snd (sync_to_online self uid st))) = sync_logs st \<and>
   online_records (snd (snd (sync_from_online self uid st))) = online_records st \<and>
   offline_records (snd (snd (sync_from_online self uid st))) = offline_records st \<and>
   sync_logs (snd (snd (sync_from_online self uid st))) = sync_logs st"
  by (simp add: sync_to_online_def sync_from_online_def)

section \<open>The sync status of a record\<close>

text \<open>
  C5. \<^verbatim>\<open>mark_for_sync\<close> sets \<^verbatim>\<open>sync_status\<close> to \<^verbatim>\<open>"pending"\<close> and
  \<^verbatim>\<open>updated_at\<close> to the current time, so \<^verbatim>\<open>updated_at\<close> does not decrease when the
  clock has not gone back; \<^verbatim>\<open>mark_synced\<close> sets \<^verbatim>\<open>"synced"\<close> and
  \<^verbatim>\<open>last_sync_at\<close> to the current time; \<^verbatim>\<open>mark_conflict\<close> sets \<^verbatim>\<open>"conflict"\<close>.
\<close>

theorem sync_lifecycle_transitions:
  "sync_status (mark_for_sync now r) = ''pending'' \<and>
   updated_at (mark_for_sync now r) = now \<and>
   (dt_le (updated_at r) now \<longrightarrow> dt_le (updated_at r) (updated_at (mark_for_sync now r))) \<and>
   sync_status (mark_synced now r) = ''synced'' \<and>
   last_sync_at (mark_synced now r) = Some now \<and>
   sync_status (mark_conflict r) = ''conflict''"
  by (simp add: mark_for_sync_def mark_synced_def mark_conflict_def)

theorem sync_lifecycle_transitions_witness:
  "dt_le (updated_at example_record) example_later \<and>
   sync_status (mark_for_sync example_later example_record) = ''pending'' \<and>
   updated_at (mark_for_sync example_later example_record) = example_later \<and>
   dt_le (updated_at example_record) (updated_at (mark_for_sync example_later example_record)) \<and>
   last_sync_at (mark_synced example_later example_record) = Some example_later"
proof -
  have h: "dt_le (updated_at example_record) example_later"
    by (simp add: example_record_def example_later_def example_time_def insert_row_def
        constructed_def column_default_def dt_le_def dt_lt_def dt_key_def)
  show ?thesis
    using h sync_lifecycle_transitions [of example_later example_record] by simp
qed




section \<open>The settings singleton\<close>

text \<open>
  C7. Once the module is imported (which binds \<^verbatim>\<open>settings\<close> to the result of the first
  call), every later call of \<^verbatim>\<open>get_settings\<close> returns that same object, whatever is
  done to the environment between the calls.
\<close>

theorem get_settings_singleton:
  assumes "import_config build p0 = Inr (s, p)"
  shows "fst (run_actions build acts p) =
         replicate (length (filter (\<lambda>a. a = GetSettings) acts)) (Inr s)"
  using run_actions_cached [OF import_config_caches [OF assms]] .

theorem get_settings_singleton_witness:
  "import_config example_build example_process =
     Inr (0, \<lparr>environ = [(''SECRET_KEY'', ''k'')], heap = [(DevelopmentSettings, ''k'')],
              lru_cache = Some 0\<rparr>) \<and>
   fst (run_actions example_build
          [GetSettings, Putenv ''ENVIRONMENT'' ''production'', GetSettings]
          \<lparr>environ = [(''SECRET_KEY'', ''k'')], heap = [(DevelopmentSettings, ''k'')],
           lru_cache = Some 0\<rparr>) = [Inr 0, Inr 0]"
proof -
  have h: "import_config example_build example_process =
     Inr (0, \<lparr>environ = [(''SECRET_KEY'', ''k'')], heap = [(DevelopmentSettings, ''k'')],
              lru_cache = Some 0\<rparr>)"
    by (simp add: import_config_def get_settings_def get_settings_body_def example_build_def
        example_process_def select_class_def getenv_def lower_def Let_def)
  show ?thesis
    using h get_settings_singleton [OF h,
        of "[GetSettings, Putenv ''ENVIRONMENT'' ''production'', GetSettings]"]
    by simp
qed

section \<open>Serialisation for sync\<close>

text \<open>
  C8. In the dict \<^verbatim>\<open>get_sync_data\<close> returns, \<^verbatim>\<open>"id"\<close> is \<^verbatim>\<open>str\<close> of the id (the
  string form of the UUID when there is one), \<^verbatim>\<open>"last_sync_at"\<close> is \<^verbatim>\<open>None\<close> exactly
  when the field is unset and its ISO string otherwise, \<^verbatim>\<open>"offline_id"\<close> and
  \<^verbatim>\<open>"sync_status"\<close> are the stored fields, and \<^verbatim>\<open>"data"\<close> is the dict of
  \<^verbatim>\<open>to_dict\<close>. That dict maps the name of every column of \<^verbatim>\<open>BaseModel\<close> to the
  column's value, with the id as the UUID's string and every timestamp ISO-formatted; it maps
  the name of every other column to \<^verbatim>\<open>str\<close> of the value when the value is a UUID, to its
  ISO string when it is a datetime, and to the value itself otherwise; and it has the key
  \<^verbatim>\<open>"african_context"\<close> with the country code, region, language code and cultural
  context. The column names of a table are distinct.
\<close>

theorem get_sync_data_shape:
  assumes "distinct (map fst (table_columns r))"
  shows "(dict_get (get_sync_data r) ''id'' = Some (PStr (case rec_id r of None
            \<Rightarrow> ''None'' | Some u \<Rightarrow> uuid_str u))) \<and>
         (\<forall>u. rec_id r = Some u \<longrightarrow> dict_get (get_sync_data r) ''id''
            = Some (PStr (uuid_str u))) \<and>
         ((dict_get (get_sync_data r) ''last_sync_at'' = Some PNone) = (last_sync_at r =
            None)) \<and>
         (\<forall>d. last_sync_at r = Some d \<longrightarrow> dict_get (get_sync_data r)
            ''last_sync_at'' = Some (PStr (isoformat d))) \<and>
         (dict_get (get_sync_data r) ''offline_id'' = Some (case offline_id r of None
            \<Rightarrow> PNone | Some s \<Rightarrow> PStr s)) \<and>
         (dict_get (get_sync_data r) ''sync_status'' = Some (PStr (sync_status r))) \<and>
         (dict_get (get_sync_data r) ''data'' = Some (PDict (to_dict r))) \<and>
         (dict_get (to_dict r) ''id'' = Some (case rec_id r of None \<Rightarrow> PNone |
            Some u \<Rightarrow> PStr (uuid_str u))) \<and>
         (dict_get (to_dict r) ''created_at'' = Some (PStr (isoformat (created_at r)))) \<and>
         (dict_get (to_dict r) ''updated_at'' = Some (PStr (isoformat (updated_at r)))) \<and>
         (dict_get (to_dict r) ''is_deleted'' = Some (PBool (is_deleted r))) \<and>
         (dict_get (to_dict r) ''deleted_at'' = Some (case deleted_at r of None
            \<Rightarrow> PNone | Some d \<Rightarrow> PStr (isoformat d))) \<and>
         (dict_get (to_dict r) ''sync_status'' = Some (PStr (sync_status r))) \<and>
         (dict_get (to_dict r) ''last_sync_at'' = Some (case last_sync_at r of None
            \<Rightarrow> PNone | Some d \<Rightarrow> PStr (isoformat d))) \<and>
         (dict_get (to_dict r) ''offline_id'' = Some (case offline_id r of None
            \<Rightarrow> PNone | Some s \<Rightarrow> PStr s)) \<and>
         (dict_get (to_dict r) ''language_code'' = Some (PStr (language_code r))) \<and>
         (dict_get (to_dict r) ''mobile_optimized'' = Some (PBool (mobile_optimized r))) \<and>
         (dict_get (to_dict r) ''data_residency_country'' = Some (case
            data_residency_country r of None \<Rightarrow> PNone | Some s \<Rightarrow> PStr
            s)) \<and>
         (\<forall>n u. (n, PUuid u) \<in> set ((''cultural_context'', cultural_context r) #
            (''metadata_info'', metadata_info r) # extra_columns r) \<and> n \<noteq>
            ''african_context'' \<longrightarrow> dict_get (to_dict r) n = Some (PStr
            (uuid_str u))) \<and>
         (\<forall>n d. (n, PDatetime d) \<in> set ((''cultural_context'', cultural_context
            r) # (''metadata_info'', metadata_info r) # extra_columns r) \<and> n \<noteq>
            ''african_context'' \<longrightarrow> dict_get (to_dict r) n = Some (PStr
            (isoformat d))) \<and>
         (\<forall>n v. (n, v) \<in> set ((''cultural_context'', cultural_context r) #
            (''metadata_info'', metadata_info r) # extra_columns r) \<and> n \<noteq>
            ''african_context'' \<and> (\<forall>u. v \<noteq> PUuid u) \<and> (\<forall>d.
            v \<noteq> PDatetime d) \<longrightarrow> dict_get (to_dict r) n = Some v) \<and>
         (dict_get (to_dict r) ''african_context'' = Some (PDict [ (''country_code'', (case
            map_of (extra_columns r) ''country_code'' of None \<Rightarrow> PNone | Some v
            \<Rightarrow> v)), (''region'', (case map_of (extra_columns r) ''region'' of
            None \<Rightarrow> PNone | Some v \<Rightarrow> v)), (''language_code'', PStr
            (language_code r)), (''cultural_context'', cultural_context r) ]))"
proof -
  have col: "dict_get (to_dict r) n = Some (serialize v)"
    if "(n, v) \<in> set (table_columns r)" and "n \<noteq> ''african_context''" for n v
    using to_dict_column [OF assms that] .
  have oth: "(n, v) \<in> set (table_columns r)"
    if "(n, v) \<in> set ((''cultural_context'', cultural_context r) # (''metadata_info'', metadata_info r) # extra_columns r)" for n v
    using that by (auto simp: table_columns_def base_columns_def)
  have "dict_get (get_sync_data r) ''id'' = Some (PStr (case rec_id r of None \<Rightarrow>
          ''None'' | Some u \<Rightarrow> uuid_str u))"
    by (simp add: dict_get_def get_sync_data_def str_of_id_def opt_val_def split: option.splits)
  moreover
  have "\<forall>u. rec_id r = Some u \<longrightarrow> dict_get (get_sync_data r) ''id'' =
          Some (PStr (uuid_str u))"
    by (simp add: dict_get_def get_sync_data_def str_of_id_def opt_val_def split: option.splits)
  moreover
  have "(dict_get (get_sync_data r) ''last_sync_at'' = Some PNone) = (last_sync_at r = None)"
    by (simp add: dict_get_def get_sync_data_def str_of_id_def opt_val_def split: option.splits)
  moreover
  have "\<forall>d. last_sync_at r = Some d \<longrightarrow> dict_get (get_sync_data r)
          ''last_sync_at'' = Some (PStr (isoformat d))"
    by (simp add: dict_get_def get_sync_data_def str_of_id_def opt_val_def split: option.splits)
  moreover
  have "dict_get (get_sync_data r) ''offline_id'' = Some (case offline_id r of None
          \<Rightarrow> PNone | Some s \<Rightarrow> PStr s)"
    by (simp add: dict_get_def get_sync_data_def str_of_id_def opt_val_def split: option.splits)
  moreover
  have "dict_get (get_sync_data r) ''sync_status'' = Some (PStr (sync_status r))"
    by (simp add: dict_get_def get_sync_data_def str_of_id_def opt_val_def split: option.splits)
  moreover
  have "dict_get (get_sync_data r) ''data'' = Some (PDict (to_dict r))"
    by (simp add: dict_get_def get_sync_data_def str_of_id_def opt_val_def split: option.splits)
  moreover
  have "dict_get (to_dict r) ''id'' = Some (case rec_id r of None \<Rightarrow> PNone | Some
          u \<Rightarrow> PStr (uuid_str u))"
    using col [of "''id''" "opt_val PUuid (rec_id r)"]
    by (simp add: table_columns_def base_columns_def opt_val_def split: option.splits)
  moreover
  have "dict_get (to_dict r) ''created_at'' = Some (PStr (isoformat (created_at r)))"
    using col [of "''created_at''" "PDatetime (created_at r)"]
    by (simp add: table_columns_def base_columns_def opt_val_def split: option.splits)
  moreover
  have "dict_get (to_dict r) ''updated_at'' = Some (PStr (isoformat (updated_at r)))"
    using col [of "''updated_at''" "PDatetime (updated_at r)"]
    by (simp add: table_columns_def base_columns_def opt_val_def split: option.splits)
  moreover
  have "dict_get (to_dict r) ''is_deleted'' = Some (PBool (is_deleted r))"
    using col [of "''is_deleted''" "PBool (is_deleted r)"]
    by (simp add: table_columns_def base_columns_def opt_val_def split: option.splits)
  moreover
  have "dict_get (to_dict r) ''deleted_at'' = Some (case deleted_at r of None \<Rightarrow>
          PNone | Some d \<Rightarrow> PStr (isoformat d))"
    using col [of "''deleted_at''" "opt_val PDatetime (deleted_at r)"]
    by (simp add: table_columns_def base_columns_def opt_val_def split: option.splits)
  moreover
  have "dict_get (to_dict r) ''sync_status'' = Some (PStr (sync_status r))"
    using col [of "''sync_status''" "PStr (sync_status r)"]
    by (simp add: table_columns_def base_columns_def opt_val_def split: option.splits)
  moreover
  have "dict_get (to_dict r) ''last_sync_at'' = Some (case last_sync_at r of None
          \<Rightarrow> PNone | Some d \<Rightarrow> PStr (isoformat d))"
    using col [of "''last_sync_at''" "opt_val PDatetime (last_sync_at r)"]
    by (simp add: table_columns_def base_columns_def opt_val_def split: option.splits)
  moreover
  have "dict_get (to_dict r) ''offline_id'' = Some (case offline_id r of None \<Rightarrow>
          PNone | Some s \<Rightarrow> PStr s)"
    using col [of "''offline_id''" "opt_val PStr (offline_id r)"]
    by (simp add: table_columns_def base_columns_def opt_val_def split: option.splits)
  moreover
  have "dict_get (to_dict r) ''language_code'' = Some (PStr (language_code r))"
    using col [of "''language_code''" "PStr (language_code r)"]
    by (simp add: table_columns_def base_columns_def opt_val_def split: option.splits)
  moreover
  have "dict_get (to_dict r) ''mobile_optimized'' = Some (PBool (mobile_optimized r))"
    using col [of "''mobile_optimized''" "PBool (mobile_optimized r)"]
    by (simp add: table_columns_def base_columns_def opt_val_def split: option.splits)
  moreover
  have "dict_get (to_dict r) ''data_residency_country'' = Some (case data_residency_country
          r of None \<Rightarrow> PNone | Some s \<Rightarrow> PStr s)"
    using col [of "''data_residency_country''" "opt_val PStr (data_residency_country r)"]
    by (simp add: table_columns_def base_columns_def opt_val_def split: option.splits)
  moreover
  have "\<forall>n u. (n, PUuid u) \<in> set ((''cultural_context'', cultural_context r) #
          (''metadata_info'', metadata_info r) # extra_columns r) \<and> n \<noteq>
          ''african_context'' \<longrightarrow> dict_get (to_dict r) n = Some (PStr
          (uuid_str u))"
  proof (intro allI impI)
    fix n u
    assume a: "(n, PUuid u) \<in> set ((''cultural_context'', cultural_context r) # (''metadata_info'', metadata_info r) # extra_columns r) \<and>
      n \<noteq> ''african_context''"
    then have "(n, PUuid u) \<in> set (table_columns r)" by (intro oth) simp
    then show "dict_get (to_dict r) n = Some (PStr (uuid_str u))"
      using a col [of n "PUuid u"] by simp
  qed
  moreover
  have "\<forall>n d. (n, PDatetime d) \<in> set ((''cultural_context'', cultural_context r)
          # (''metadata_info'', metadata_info r) # extra_columns r) \<and> n \<noteq>
          ''african_context'' \<longrightarrow> dict_get (to_dict r) n = Some (PStr
          (isoformat d))"
  proof (intro allI impI)
    fix n d
    assume a: "(n, PDatetime d) \<in> set ((''cultural_context'', cultural_context r) # (''metadata_info'', metadata_info r) # extra_columns r) \<and>
      n \<noteq> ''african_context''"
    then have "(n, PDatetime d) \<in> set (table_columns r)" by (intro oth) simp
    then show "dict_get (to_dict r) n = Some (PStr (isoformat d))"
      using a col [of n "PDatetime d"] by simp
  qed
  moreover
  have "\<forall>n v. (n, v) \<in> set ((''cultural_context'', cultural_context r) #
          (''metadata_info'', metadata_info r) # extra_columns r) \<and> n \<noteq>
          ''african_context'' \<and> (\<forall>u. v \<noteq> PUuid u) \<and> (\<forall>d. v
          \<noteq> PDatetime d) \<longrightarrow> dict_get (to_dict r) n = Some v"
  proof (intro allI impI)
    fix n v
    assume a: "(n, v) \<in> set ((''cultural_context'', cultural_context r) # (''metadata_info'', metadata_info r) # extra_columns r) \<and>
      n \<noteq> ''african_context'' \<and> (\<forall>u. v \<noteq> PUuid u) \<and> (\<forall>d. v \<noteq> PDatetime d)"
    then have sv: "serialize v = v" by (cases v) simp_all
    from a have "(n, v) \<in> set (table_columns r)" by (intro oth) simp
    then show "dict_get (to_dict r) n = Some v" using a sv col [of n v] by simp
  qed
  moreover
  have "dict_get (to_dict r) ''african_context'' = Some (PDict [ (''country_code'', (case
          map_of (extra_columns r) ''country_code'' of None \<Rightarrow> PNone | Some v
          \<Rightarrow> v)), (''region'', (case map_of (extra_columns r) ''region'' of None
          \<Rightarrow> PNone | Some v \<Rightarrow> v)), (''language_code'', PStr
          (language_code r)), (''cultural_context'', cultural_context r) ])"
    by (simp add: to_dict_african_context african_context_def getattr_default_def
        table_columns_def base_columns_def)
  ultimately show ?thesis by (intro conjI)
qed

theorem get_sync_data_shape_witness:
  "distinct (map fst (table_columns (mark_synced example_later example_record))) \<and>
   dict_get (get_sync_data (mark_synced example_later example_record)) ''id''
     = Some (PStr ''12345678-1234-5678-1234-567812345678'') \<and>
   dict_get (get_sync_data (mark_synced example_later example_record)) ''last_sync_at''
     = Some (PStr ''2024-03-09T08:00:30.000250'') \<and>
   dict_get (get_sync_data (mark_synced example_later example_record)) ''offline_id''
     = Some (PStr ''dev1-0001'') \<and>
   dict_get (to_dict (mark_synced example_later example_record)) ''updated_at''
     = Some (PStr ''2024-03-09T07:05:00'') \<and>
   dict_get (to_dict (mark_synced example_later example_record)) ''country_code''
     = Some (PStr ''NG'') \<and>
   dict_get (to_dict (mark_synced example_later example_record)) ''id''
     = Some (PStr ''12345678-1234-5678-1234-567812345678'') \<and>
   dict_get (to_dict (mark_synced example_later example_record)) ''last_sync_at''
     = Some (PStr ''2024-03-09T08:00:30.000250'') \<and>
   dict_get (to_dict (mark_synced example_later example_record)) ''area''
     = Some (PInt 12)"
proof -
  let ?r = "mark_synced example_later example_record"
  have h: "distinct (map fst (table_columns ?r))"
    by (simp add: table_columns_def base_columns_def mark_synced_def example_record_def
        insert_row_def constructed_def)
  have i: "rec_id ?r = Some 0x12345678123456781234567812345678"
    by (simp add: mark_synced_def example_record_def insert_row_def constructed_def
        column_default_def)
  have l: "last_sync_at ?r = Some example_later"
    by (simp add: mark_synced_def)
  have o: "offline_id ?r = Some ''dev1-0001''"
    by (simp add: mark_synced_def example_record_def insert_row_def constructed_def)
  have x: "updated_at ?r = example_time"
    "extra_columns ?r = [(''country_code'', PStr ''NG''), (''area'', PInt 12)]"
    by (simp_all add: mark_synced_def example_record_def insert_row_def constructed_def
        column_default_def)
  have u: "uuid_str 0x12345678123456781234567812345678 = ''12345678-1234-5678-1234-567812345678''"
    by code_simp
  have t1: "isoformat example_later = ''2024-03-09T08:00:30.000250''"
    by code_simp
  have t2: "isoformat example_time = ''2024-03-09T07:05:00''"
    by code_simp
  note shape = get_sync_data_shape [OF h]
  have flat: "dict_get (get_sync_data ?r) ''id'' = Some (PStr ''12345678-1234-5678-1234-567812345678'')"
    "dict_get (get_sync_data ?r) ''last_sync_at'' = Some (PStr ''2024-03-09T08:00:30.000250'')"
    "dict_get (get_sync_data ?r) ''offline_id'' = Some (PStr ''dev1-0001'')"
    "dict_get (to_dict ?r) ''updated_at'' = Some (PStr ''2024-03-09T07:05:00'')"
    "dict_get (to_dict ?r) ''id'' = Some (PStr ''12345678-1234-5678-1234-567812345678'')"
    "dict_get (to_dict ?r) ''last_sync_at'' = Some (PStr ''2024-03-09T08:00:30.000250'')"
    using shape i l o x u t1 t2 by simp_all
  have m1: "(''country_code'', PStr ''NG'')
      \<in> set ((''cultural_context'', cultural_context ?r) # (''metadata_info'', metadata_info ?r)
              # extra_columns ?r)"
    and m2: "(''area'', PInt 12)
      \<in> set ((''cultural_context'', cultural_context ?r) # (''metadata_info'', metadata_info ?r)
              # extra_columns ?r)"
    by (simp_all add: x)
  have cc: "dict_get (to_dict ?r) ''country_code'' = Some (PStr ''NG'')"
    using shape m1 by force
  have ar: "dict_get (to_dict ?r) ''area'' = Some (PInt 12)"
    using shape m2 by force
  show ?thesis using h flat cc ar by simp
qed

section \<open>Account lock\<close>

text \<open>
  C9. A user whose \<^verbatim>\<open>account_locked_until\<close> is \<^verbatim>\<open>None\<close> is not locked, whatever
  \<^verbatim>\<open>failed_login_attempts\<close> is; when it is set, the account is locked exactly when the
  current time is strictly before it.
\<close>

theorem is_account_locked_cases:
  "(account_locked_until u = None \<longrightarrow> \<not> is_account_locked now u) \<and>
   (\<forall>t. account_locked_until u = Some t \<longrightarrow> is_account_locked now u = dt_lt now t)"
  by (simp add: is_account_locked_def)

theorem is_account_locked_cases_witness:
  "account_locked_until example_user = None \<and>
   \<not> is_account_locked example_time example_user \<and>
   account_locked_until (example_user\<lparr>account_locked_until := Some example_later\<rparr>)
     = Some example_later \<and>
   is_account_locked example_time (example_user\<lparr>account_locked_until := Some example_later\<rparr>) \<and>
   \<not> is_account_locked example_later (example_user\<lparr>account_locked_until := Some example_later\<rparr>)"
proof -
  have a: "account_locked_until example_user = None" by (simp add: example_user_def)
  have b: "account_locked_until (example_user\<lparr>account_locked_until := Some example_later\<rparr>)
     = Some example_later" by simp
  have lt: "dt_lt example_time example_later" "\<not> dt_lt example_later example_later"
    by (simp_all add: dt_lt_def dt_key_def example_time_def example_later_def)
  show ?thesis
    using a b lt is_account_locked_cases [of example_user example_time]
      is_account_locked_cases [of "example_user\<lparr>account_locked_until := Some example_later\<rparr>"
        example_time]
      is_account_locked_cases [of "example_user\<lparr>account_locked_until := Some example_later\<rparr>"
        example_later]
    by simp
qed

text \<open>
  C10. The fifth failed login: \<^verbatim>\<open>increment_failed_login\<close> on a user with four failed
  attempts counts the fifth and then raises \<^verbatim>\<open>NameError\<close>, because the module never
  imports \<^verbatim>\<open>timedelta\<close>; \<^verbatim>\<open>account_locked_until\<close> stays unset.
\<close>

theorem increment_failed_login_fifth_raises:
  "increment_failed_login example_time example_user =
     (Inl (NameError ''timedelta''),
      \<lparr>last_login = None, login_count = 0, failed_login_attempts = 5,
       account_locked_until = None\<rparr>)"
  by (simp add: increment_failed_login_def utcnow_plus_minutes_def timedelta_unbound
      example_user_def)

end
